theory Spec2Isabelle
  imports Complex_Main
begin

section \<open>Values exchanged between the services\<close>

text \<open>
  The services exchange JSON: request bodies, response bodies, socket payloads and queue
  messages. A parsed JSON value is modelled by the datatype below; an object is the
  association list of its members in the order the source writes them. Numbers are not
  needed by the code under study beyond being carried around, so they are integers here.
  A JavaScript \<open>undefined\<close> (an absent member) is \<open>None\<close> of an option type.
\<close>

datatype json =
    JNull
  | JBool bool
  | JNum int
  | JStr string
  | JArr "json list"
  | JObj "(string \<times> json) list"

text \<open>An HTTP response: \<open>res.status(n).json(b)\<close>; \<open>res.json(b)\<close> has status 200.\<close>

datatype response = Response (status: nat) (body: json)

text \<open>Reading a member of an object, \<open>v.k\<close>: \<open>None\<close> when the object has no such member.\<close>

definition get_member :: "json \<Rightarrow> string \<Rightarrow> json option" where
  "get_member v k = (case v of JObj ms \<Rightarrow> map_of ms k | _ \<Rightarrow> None)"

section \<open>Realtime service: the internal emit route\<close>

text \<open>
  \<open>services/realtime/src/socket.ts\<close>: a connected socket is enrolled into rooms
  (\<open>socket.join\<close>). The server is the list of connected sockets, each with the rooms
  it has joined. \<open>getIO\<close> throws when \<open>initSocket\<close> has not run.
\<close>

type_synonym socket_id = nat

record server =
  sockets :: "(socket_id \<times> string list) list"

datatype gateway_error = Socket_not_initialized | Reserved_event_name string

definition getIO :: "server option \<Rightarrow> gateway_error + server" where
  "getIO io = (case io of None \<Rightarrow> Inl Socket_not_initialized | Some s \<Rightarrow> Inr s)"

text \<open>A message handed to one socket: the socket, the event name and the payload.\<close>

type_synonym delivery = "socket_id \<times> string \<times> json"

text \<open>
  \<open>io.to(room).emit(event, payload)\<close>: one delivery to every socket enrolled in the room.
  The socket library keeps six event names for itself and throws when one of them is
  emitted.
\<close>

definition members :: "server \<Rightarrow> string \<Rightarrow> socket_id list" where
  "members s r = map fst (filter (\<lambda>c. r \<in> set (snd c)) (sockets s))"

definition RESERVED_EVENTS :: "string list" where
  "RESERVED_EVENTS = [''connect'', ''connect_error'', ''disconnect'', ''disconnecting'',
                      ''newListener'', ''removeListener'']"

definition to_emit ::
  "server \<Rightarrow> string \<Rightarrow> string \<Rightarrow> json \<Rightarrow> gateway_error + delivery list" where
  "to_emit s r ev p =
     (if ev \<in> set RESERVED_EVENTS then Inl (Reserved_event_name ev)
      else Inr (map (\<lambda>sid. (sid, ev, p)) (members s r)))"

text \<open>
  The request seen by \<open>router.post("/emit")\<close>: the \<open>x-internal-key\<close> header and the
  members \<open>event\<close>, \<open>room\<close>, \<open>payload\<close> of the body. \<open>event\<close> and \<open>room\<close> are
  strings when present.
\<close>

record emit_request =
  x_internal_key :: "string option"
  event :: "string option"
  room :: "string option"
  payload :: "json option"

text \<open>
  JavaScript truthiness of a string that may be absent: \<open>!v\<close> holds for \<open>undefined\<close>
  and for \<open>""\<close>. \<open>truthy v\<close> is the string when \<open>v\<close> is truthy.
\<close>

definition truthy :: "string option \<Rightarrow> string option" where
  "truthy v = (case v of None \<Rightarrow> None | Some s \<Rightarrow> if s = [] then None else Some s)"

text \<open>\<open>payload ?? {}\<close>: the empty object replaces \<open>undefined\<close> and \<open>null\<close>.\<close>

definition nullish_default :: "json option \<Rightarrow> json" where
  "nullish_default p = (case p of None \<Rightarrow> JObj [] | Some JNull \<Rightarrow> JObj [] | Some v \<Rightarrow> v)"

text \<open>
  The handler of \<open>POST /emit\<close> in \<open>services/realtime/src/routes/internal.ts\<close>. The first
  argument is \<open>process.env.INTERNAL_SERVICE_KEY\<close>, the second the module variable \<open>io\<close>.
  The result is the response, the deliveries made and the server afterwards. The handler
  has no \<open>try\<close> block: an exception of \<open>getIO\<close> or of the emit leaves it as \<open>Inl\<close>,
  no response of its own is sent and the framework answers 500. The test
  \<open>!event || !room\<close> is the second branch of the case distinction. Console output is
  not modelled.
\<close>

definition emit_route ::
  "string option \<Rightarrow> server option \<Rightarrow> emit_request
     \<Rightarrow> gateway_error + (response \<times> delivery list \<times> server option)" where
  "emit_route INTERNAL_SERVICE_KEY io req =
     (if x_internal_key req \<noteq> INTERNAL_SERVICE_KEY then
        Inr (Response 403 (JObj [(''message'', JStr ''Forbidden'')]), [], io)
      else
        (case (truthy (event req), truthy (room req)) of
           (Some ev, Some r) \<Rightarrow>
             (case getIO io of
                Inl e \<Rightarrow> Inl e
              | Inr s \<Rightarrow>
                  (case to_emit s r ev (nullish_default (payload req)) of
                     Inl e \<Rightarrow> Inl e
                   | Inr deliveries \<Rightarrow>
                       Inr (Response 200 (JObj [(''sucess'', JBool True)]), deliveries, io)))
         | _ \<Rightarrow>
             Inr (Response 400 (JObj [(''message'', JStr ''event and room are required'')]),
                  [], io)))"

section \<open>Rider service: the order-ready consumer\<close>

text \<open>
  \<open>services/rider/src/model/Rider.ts\<close>: the fields of a rider document that the consumer
  reads. \<open>location\<close> holds the GeoJSON coordinates \<open>[longitude, latitude]\<close>. The field
  \<open>isAvailble\<close> is spelt as in the schema.
\<close>

type_synonym point = "real \<times> real"

record rider =
  userId :: string
  isVerified :: bool
  location :: point
  isAvailble :: bool

text \<open>
  The query of the consumer,
  \<open>Rider.find({isAvailble: true, isVerified: true,
      location: {$near: {$geometry: location, $maxDistance: 500}}})\<close>.
  The database computes the distance in metres on the sphere; that function is the
  parameter \<open>distance\<close>. \<open>$near\<close> returns the matching documents nearest first. The query
  fails (the promise rejects) when the collection cannot be reached, \<open>None\<close> as the
  collection, or when the message carried no geometry.
\<close>

definition eligible :: "(point \<Rightarrow> point \<Rightarrow> real) \<Rightarrow> point \<Rightarrow> rider \<Rightarrow> bool" where
  "eligible distance l r = (isAvailble r = True \<and> isVerified r = True \<and> distance l (location r) \<le> 500)"

definition Rider_find ::
  "(point \<Rightarrow> point \<Rightarrow> real) \<Rightarrow> rider list option \<Rightarrow> point option \<Rightarrow> rider list option" where
  "Rider_find distance collection geometry =
     (case collection of
        None \<Rightarrow> None
      | Some docs \<Rightarrow>
          (case geometry of
             None \<Rightarrow> None
           | Some l \<Rightarrow> Some (sort_key (\<lambda>r. distance l (location r)) (filter (eligible distance l) docs))))"

text \<open>
  A message of the order-ready queue after \<open>JSON.parse\<close>: the members \<open>type\<close> and
  \<open>data\<close> of the event, and \<open>orderId\<close>, \<open>restaurantId\<close>, \<open>location\<close> of its data.
  Content that does not parse, or parses to \<open>null\<close>, is \<open>Malformed\<close>: both throw inside
  the \<open>try\<close> block before anything else happens.
\<close>

record order_ready_data =
  data_orderId :: "string option"
  data_restaurantId :: "string option"
  data_location :: "point option"

record order_ready_event =
  event_type :: "string option"
  event_data :: "order_ready_data option"

datatype content = Malformed | Parsed order_ready_event

text \<open>
  What the callback does to the outside, in order: the query it runs, the requests it
  posts to the realtime service (with whether the request succeeded), and its calls of
  \<open>channel.ack\<close> and \<open>channel.nack\<close> (with the requeue flag).
\<close>

datatype effect =
    Find "point option"
  | Post emit_request bool
  | Ack
  | Nack bool

text \<open>A member of an object literal is left out by the serialiser when its value is \<open>undefined\<close>.\<close>

definition member_of :: "string \<Rightarrow> string option \<Rightarrow> (string \<times> json) list" where
  "member_of k v = (case v of None \<Rightarrow> [] | Some s \<Rightarrow> [(k, JStr s)])"

text \<open>The request posted for one rider; the header is \<open>process.env.INTERNAL_SERVICE_KEY\<close>.\<close>

definition offer :: "string option \<Rightarrow> order_ready_data \<Rightarrow> rider \<Rightarrow> emit_request" where
  "offer INTERNAL_SERVICE_KEY d r =
     \<lparr> x_internal_key = INTERNAL_SERVICE_KEY,
       event = Some ''order:available'',
       room = Some (''user:'' @ userId r),
       payload = Some (JObj (member_of ''orderId'' (data_orderId d)
                             @ member_of ''restaurantId'' (data_restaurantId d))) \<rparr>"

text \<open>
  The loop \<open>for (const rider of riders)\<close>. \<open>axios_post\<close> tells whether the request to
  the realtime service succeeds; a failure is caught inside the loop and only logged.
\<close>

primrec notify ::
  "(emit_request \<Rightarrow> bool) \<Rightarrow> string option \<Rightarrow> order_ready_data \<Rightarrow> rider list \<Rightarrow> effect list" where
  "notify axios_post KEY d [] = []"
| "notify axios_post KEY d (r # riders) =
     Post (offer KEY d r) (axios_post (offer KEY d r)) # notify axios_post KEY d riders"

text \<open>
  The callback given to \<open>channel.consume\<close> in \<open>startOrderReadyConsumer\<close>. \<open>msg\<close> is
  \<open>None\<close> for the \<open>null\<close> the broker passes when the consumer is cancelled. An exception
  inside the \<open>try\<close> block ends the callback in the \<open>catch\<close> block, which only logs: the
  effects up to the exception are all there is, and the message is neither acknowledged
  nor rejected.
\<close>

definition on_message ::
  "(point \<Rightarrow> point \<Rightarrow> real) \<Rightarrow> (emit_request \<Rightarrow> bool) \<Rightarrow> string option
     \<Rightarrow> rider list option \<Rightarrow> content option \<Rightarrow> effect list" where
  "on_message distance axios_post KEY collection msg =
     (case msg of
        None \<Rightarrow> []
      | Some Malformed \<Rightarrow> []
      | Some (Parsed ev) \<Rightarrow>
          if event_type ev \<noteq> Some ''ORDER_READY_FOR_RIDER'' then [Ack]
          else
            (case event_data ev of
               None \<Rightarrow> []
             | Some d \<Rightarrow>
                 (case Rider_find distance collection (data_location d) of
                    None \<Rightarrow> [Find (data_location d)]
                  | Some riders \<Rightarrow>
                      if length riders = 0 then [Find (data_location d), Ack]
                      else Find (data_location d) # notify axios_post KEY d riders @ [Ack])))"

section \<open>Utils service: Razorpay verification and the payment producer\<close>

text \<open>
  \<open>services/utils/src/config/payment.producer.ts\<close>. The payload of
  \<open>publishPaymentSuccess\<close> has the members \<open>orderId\<close>, \<open>paymentId\<close> and \<open>provider\<close>; the
  controller fills the first two from the request body, where they may be absent.
\<close>

datatype provider = razorpay | stripe

definition provider_name :: "provider \<Rightarrow> string" where
  "provider_name p = (case p of razorpay \<Rightarrow> ''razorpay'' | stripe \<Rightarrow> ''stripe'')"

record payment_payload =
  payload_orderId :: "string option"
  payload_paymentId :: "string option"
  payload_provider :: provider

text \<open>
  One call of \<open>channel.sendToQueue(queue, Buffer.from(JSON.stringify(v)), {persistent: p})\<close>.
  The channel is the list of the messages sent so far.
\<close>

record sent_message =
  sent_queue :: string
  sent_content :: json
  sent_persistent :: bool

definition payment_success_envelope :: "payment_payload \<Rightarrow> json" where
  "payment_success_envelope p =
     JObj [(''type'', JStr ''PAYMENT_SUCCESS''),
           (''data'', JObj (member_of ''orderId'' (payload_orderId p)
                            @ member_of ''paymentId'' (payload_paymentId p)
                            @ [(''provider'', JStr (provider_name (payload_provider p)))]))]"

definition publishPaymentSuccess ::
  "string \<Rightarrow> sent_message list \<Rightarrow> payment_payload \<Rightarrow> sent_message list" where
  "publishPaymentSuccess PAYMENT_QUEUE channel p =
     channel @ [\<lparr> sent_queue = PAYMENT_QUEUE,
                  sent_content = payment_success_envelope p,
                  sent_persistent = True \<rparr>]"

text \<open>
  \<open>services/utils/src/config/verifyRazorpay.ts\<close>. A template literal prints an absent
  value as \<open>undefined\<close>. The keyed hash of the \<open>crypto\<close> module, as a hex string, is the
  parameter \<open>hmac_sha256_hex\<close> (key first, message second). \<open>===\<close> compares the
  digest with a signature that may be absent.
\<close>

definition template :: "string option \<Rightarrow> string" where
  "template v = (case v of None \<Rightarrow> ''undefined'' | Some s \<Rightarrow> s)"

definition verifyRazorpaySignature ::
  "(string \<Rightarrow> string \<Rightarrow> string) \<Rightarrow> string
     \<Rightarrow> string option \<Rightarrow> string option \<Rightarrow> string option \<Rightarrow> bool" where
  "verifyRazorpaySignature hmac_sha256_hex RAZORPAY_KEY_SECRET orderId paymentId signature =
     (let body = template orderId @ ''|'' @ template paymentId;
          expectedSignature = hmac_sha256_hex RAZORPAY_KEY_SECRET body
      in Some expectedSignature = signature)"

text \<open>
  \<open>verifyRazorpayPayment\<close> of the payment controller: the four members it reads from the
  request body, the response it sends and the channel afterwards.
\<close>

record verify_request =
  razorpay_order_id :: "string option"
  razorpay_payment_id :: "string option"
  razorpay_signature :: "string option"
  orderId :: "string option"

definition verifyRazorpayPayment ::
  "(string \<Rightarrow> string \<Rightarrow> string) \<Rightarrow> string \<Rightarrow> string
     \<Rightarrow> sent_message list \<Rightarrow> verify_request \<Rightarrow> response \<times> sent_message list" where
  "verifyRazorpayPayment hmac_sha256_hex RAZORPAY_KEY_SECRET PAYMENT_QUEUE channel req =
     (let isValid = verifyRazorpaySignature hmac_sha256_hex RAZORPAY_KEY_SECRET
                      (razorpay_order_id req) (razorpay_payment_id req) (razorpay_signature req)
      in if \<not> isValid then
           (Response 400 (JObj [(''message'', JStr ''Payment verification failed'')]), channel)
         else
           (Response 200 (JObj [(''message'', JStr ''Payment verified successfully'')]),
            publishPaymentSuccess PAYMENT_QUEUE channel
              \<lparr> payload_orderId = orderId req,
                payload_paymentId = razorpay_payment_id req,
                payload_provider = razorpay \<rparr>))"

section \<open>Order store: settlement and rider assignment\<close>

text \<open>
  \<open>scalable_architecture_docs/03_Database_Evolution.md\<close>: the order document with the
  fields that settlement and assignment read and write, and the collection as a map from
  \<open>_id\<close> to document. \<open>order_userId\<close> is the document's \<open>userId\<close>; \<open>expiresAt\<close> is
  a time stamp, absent once unset.
\<close>

datatype payment_status = pending | paid | failed

record order =
  order_userId :: string
  paymentStatus :: payment_status
  expiresAt :: "nat option"
  riderId :: "string option"
  riderName :: "string option"
  riderPhone :: "string option"
  status :: string

type_synonym orders = "string \<rightharpoonup> order"

text \<open>
  The data of a \<open>PAYMENT_SUCCESS\<close> envelope, \<open>{orderId, paymentReference}\<close>; what a
  consumer tells the broker about a message; and a notification handed to the realtime
  gateway: the room it is addressed to and the order it confirms.
\<close>

record payment_success_data =
  settled_orderId :: string
  paymentReference :: string

datatype decision = Acknowledge | Nack_with_requeue | Dead_letter

record notification =
  notification_room :: string
  notification_orderId :: string

text \<open>
  Modelled from the spec: the order state machine's step to \<open>paid\<close>, which the payment
  settlement consumer takes and whose code is not among the sources. Section 4.1: the
  states run \<open>placed\<close>, \<open>payment_pending\<close>, \<open>paid\<close>, ...; a transition requested from a
  state that the target does not follow is rejected and never applied. Section 4.3 names
  the transition of settlement \<open>placed/payment_pending\<close> to \<open>paid\<close>.
\<close>

definition transition_paid :: "order \<Rightarrow> order" where
  "transition_paid doc =
     (if status doc = ''placed'' \<or> status doc = ''payment_pending''
      then doc\<lparr>status := ''paid''\<rparr> else doc)"

text \<open>
  Modelled from the spec: the payment settlement consumer (\<open>payment.consumer\<close> of the
  restaurant service, started by \<open>startPaymentConsumer\<close>), whose code is not among the
  sources. Section 4.3: on a \<open>PAYMENT_SUCCESS\<close> envelope, perform an atomic conditional
  update, "set paymentStatus=paid and clear expiresAt, but only if paymentStatus is
  currently pending"; if the condition fails, treat the message as a successful no-op;
  on success, take the order to \<open>paid\<close> and publish a notification to room
  \<open>user:<order.userId>\<close>. If the store cannot be reached, nack with requeue; if the
  order does not exist, dead-letter. The first argument tells whether the store can be
  reached at this delivery. The result is the decision, the notifications published and
  the store afterwards.
\<close>

definition settlement_consumer ::
  "bool \<Rightarrow> orders \<Rightarrow> payment_success_data
     \<Rightarrow> decision \<times> notification list \<times> orders" where
  "settlement_consumer storage_available db d =
     (if \<not> storage_available then (Nack_with_requeue, [], db)
      else
        (case db (settled_orderId d) of
           None \<Rightarrow> (Dead_letter, [], db)
         | Some doc \<Rightarrow>
             if paymentStatus doc = pending then
               (Acknowledge,
                [\<lparr> notification_room = ''user:'' @ order_userId doc,
                    notification_orderId = settled_orderId d \<rparr>],
                db(settled_orderId d \<mapsto>
                     transition_paid (doc\<lparr>paymentStatus := paid, expiresAt := None\<rparr>)))
             else (Acknowledge, [], db)))"

text \<open>
  The same envelope delivered once for every element of the list, which tells for each
  delivery whether the store can be reached: all the notifications published, in order,
  and the store at the end.
\<close>

fun redeliver ::
  "bool list \<Rightarrow> orders \<Rightarrow> payment_success_data \<Rightarrow> notification list \<times> orders" where
  "redeliver [] db d = ([], db)"
| "redeliver (up # ups) db d =
     (case settlement_consumer up db d of
        (dec, sent, db') \<Rightarrow>
          (case redeliver ups db' d of (later, db'') \<Rightarrow> (sent @ later, db'')))"

text \<open>
  \<open>Order.findOneAndUpdate({_id: orderId, riderId: null}, update, {new: true})\<close>: one
  storage operation that tests and writes. It returns the updated document, or \<open>null\<close>
  when no document has this identifier and no rider.
\<close>

definition findOneAndUpdate ::
  "orders \<Rightarrow> string \<Rightarrow> (order \<Rightarrow> order) \<Rightarrow> order option \<times> orders" where
  "findOneAndUpdate db oid upd =
     (case db oid of
        None \<Rightarrow> (None, db)
      | Some doc \<Rightarrow>
          if riderId doc = None then (Some (upd doc), db(oid \<mapsto> upd doc)) else (None, db))"

text \<open>
  The request of \<open>assignRiderToOrder\<close>: the \<open>x-internal-key\<close> header and the body. A
  \<open>None\<close> among the rider's data is a JSON \<open>null\<close>.
\<close>

record assign_request =
  assign_key :: "string option"
  assign_orderId :: string
  assign_riderId :: "string option"
  assign_riderName :: "string option"
  assign_riderPhone :: "string option"

definition assignment :: "assign_request \<Rightarrow> order \<Rightarrow> order" where
  "assignment req doc =
     doc\<lparr> riderId := assign_riderId req,
          riderName := assign_riderName req,
          riderPhone := assign_riderPhone req,
          status := ''rider_assigned'' \<rparr>"

text \<open>
  \<open>assignRiderToOrder\<close>, the internal endpoint of the restaurant service. \<open>toJSON\<close> is
  the serialisation of the document into the response body.
\<close>

definition assignRiderToOrder ::
  "(order \<Rightarrow> json) \<Rightarrow> string option \<Rightarrow> orders \<Rightarrow> assign_request \<Rightarrow> response \<times> orders" where
  "assignRiderToOrder toJSON INTERNAL_SERVICE_KEY db req =
     (if assign_key req \<noteq> INTERNAL_SERVICE_KEY then
        (Response 403 (JObj [(''message'', JStr ''Forbidden'')]), db)
      else
        (case findOneAndUpdate db (assign_orderId req) (assignment req) of
           (None, db') \<Rightarrow>
             (Response 400 (JObj [(''message'', JStr ''Order already taken'')]), db')
         | (Some doc, db') \<Rightarrow>
             (Response 200 (JObj [(''success'', JBool True), (''order'', toJSON doc)]), db')))"

text \<open>
  The handler of \<open>POST /api/order/assign-rider\<close> of the same document: the same
  storage operation without the key check, and another wording of the conflict.
\<close>

definition assign_rider ::
  "(order \<Rightarrow> json) \<Rightarrow> orders \<Rightarrow> assign_request \<Rightarrow> response \<times> orders" where
  "assign_rider toJSON db req =
     (case findOneAndUpdate db (assign_orderId req) (assignment req) of
        (None, db') \<Rightarrow>
          (Response 400 (JObj [(''error'', JStr ''Order already assigned or not found'')]), db')
      | (Some doc, db') \<Rightarrow>
          (Response 200 (JObj [(''success'', JBool True), (''order'', toJSON doc)]), db'))"

text \<open>
  A sequence of requests served one after the other, each on the store the previous one
  left: the responses in order and the final store. Every request performs a single
  storage operation, so any concurrent execution is one such sequence.
\<close>

fun serve_assign ::
  "(order \<Rightarrow> json) \<Rightarrow> string option \<Rightarrow> orders \<Rightarrow> assign_request list
     \<Rightarrow> response list \<times> orders" where
  "serve_assign toJSON KEY db [] = ([], db)"
| "serve_assign toJSON KEY db (req # reqs) =
     (case assignRiderToOrder toJSON KEY db req of
        (resp, db') \<Rightarrow>
          (case serve_assign toJSON KEY db' reqs of
             (resps, db'') \<Rightarrow> (resp # resps, db'')))"

section \<open>Example data\<close>

text \<open>
  Concrete inputs for the instances below: a distance in the plane in place of the
  database's distance on the sphere, a realtime service that always answers (or always
  fails), two riders, an order-ready event with a chosen tag, and two orders.
\<close>

definition flat_distance :: "point \<Rightarrow> point \<Rightarrow> real" where
  "flat_distance p q = \<bar>fst p - fst q\<bar> + \<bar>snd p - snd q\<bar>"

definition always :: "bool \<Rightarrow> emit_request \<Rightarrow> bool" where
  "always b req = b"

definition near_rider :: rider where
  "near_rider = \<lparr> userId = ''u1'', isVerified = True, location = (0, 100), isAvailble = True \<rparr>"

definition far_rider :: rider where
  "far_rider = \<lparr> userId = ''u2'', isVerified = True, location = (0, 900), isAvailble = True \<rparr>"

definition ready_data :: order_ready_data where
  "ready_data = \<lparr> data_orderId = Some ''o1'', data_restaurantId = Some ''r1'',
                  data_location = Some (0, 0) \<rparr>"

definition ready_event :: "string \<Rightarrow> order_ready_event" where
  "ready_event tag = \<lparr> event_type = Some tag, event_data = Some ready_data \<rparr>"

definition offer_request :: emit_request where
  "offer_request = \<lparr> x_internal_key = Some ''key'', event = Some ''order:available'',
                      room = Some ''user:u1'', payload = None \<rparr>"

definition one_socket :: server where
  "one_socket = \<lparr> sockets = [(1, [''user:u1''])] \<rparr>"

text \<open>
  A stand-in for the keyed hash (it only has to be some function of key and message), a
  verification request signed with it, and a payload.
\<close>

definition toy_hmac :: "string \<Rightarrow> string \<Rightarrow> string" where
  "toy_hmac key msg = key @ '':'' @ msg"

definition signed_request :: verify_request where
  "signed_request = \<lparr> razorpay_order_id = Some ''order_1'', razorpay_payment_id = Some ''pay_1'',
     razorpay_signature = Some ''secret:order_1|pay_1'', orderId = Some ''o1'' \<rparr>"

definition razorpay_payload :: payment_payload where
  "razorpay_payload = \<lparr> payload_orderId = Some ''o1'', payload_paymentId = Some ''pay_1'',
     payload_provider = razorpay \<rparr>"

text \<open>
  Two orders of user \<open>u7\<close>, one awaiting payment and one ready and without a rider;
  the settlement envelope and the accept request of a courier for order \<open>o1\<close>; a
  serialiser.
\<close>

definition pending_order :: order where
  "pending_order = \<lparr> order_userId = ''u7'', paymentStatus = pending, expiresAt = Some 900, riderId = None,
     riderName = None, riderPhone = None, status = ''placed'' \<rparr>"

definition settlement :: payment_success_data where
  "settlement = \<lparr> settled_orderId = ''o1'', paymentReference = ''pay_1'' \<rparr>"

definition ready_order :: order where
  "ready_order = \<lparr> order_userId = ''u7'', paymentStatus = paid, expiresAt = None, riderId = None,
     riderName = None, riderPhone = None, status = ''ready_for_rider'' \<rparr>"

definition accept_by :: "string \<Rightarrow> assign_request" where
  "accept_by c = \<lparr> assign_key = Some ''key'', assign_orderId = ''o1'',
     assign_riderId = Some c, assign_riderName = Some c, assign_riderPhone = None \<rparr>"

definition id_only :: "order \<Rightarrow> json" where
  "id_only doc = (case riderId doc of None \<Rightarrow> JNull | Some c \<Rightarrow> JStr c)"

section \<open>The internal emit route\<close>

text \<open>The three outcomes of the route, in the order the handler tests for them.\<close>

lemma emit_route_forbidden:
  "x_internal_key req \<noteq> KEY \<Longrightarrow>
     emit_route KEY io req = Inr (Response 403 (JObj [(''message'', JStr ''Forbidden'')]), [], io)"
  by (simp add: emit_route_def)

lemma emit_route_bad_request:
  "x_internal_key req = KEY \<Longrightarrow> truthy (event req) = None \<or> truthy (room req) = None \<Longrightarrow>
     emit_route KEY io req
       = Inr (Response 400 (JObj [(''message'', JStr ''event and room are required'')]), [], io)"
  by (auto simp: emit_route_def split: option.splits)

lemma emit_route_dispatch:
  "x_internal_key req = KEY \<Longrightarrow> truthy (event req) = Some ev \<Longrightarrow> truthy (room req) = Some r \<Longrightarrow>
     ev \<notin> set RESERVED_EVENTS \<Longrightarrow>
     emit_route KEY (Some s) req
       = Inr (Response 200 (JObj [(''sucess'', JBool True)]),
              map (\<lambda>sid. (sid, ev, nullish_default (payload req))) (members s r), Some s)"
  by (simp add: emit_route_def getIO_def to_emit_def)

lemma emit_route_reserved:
  "x_internal_key req = KEY \<Longrightarrow> truthy (event req) = Some ev \<Longrightarrow> truthy (room req) = Some r \<Longrightarrow>
     ev \<in> set RESERVED_EVENTS \<Longrightarrow>
     emit_route KEY (Some s) req = Inl (Reserved_event_name ev)"
  by (simp add: emit_route_def getIO_def to_emit_def)

text \<open>
  C7. An authorised request with an event and a room is dispatched to the room and
  answered with status 200, but the body of the answer is \<open>{sucess: true}\<close>: the member
  is not named \<open>success\<close>. Evaluated on a request for the room of one connected socket.
\<close>

theorem emit_route_success_body_misspelt:
  "emit_route (Some ''key'') (Some one_socket) offer_request
     = Inr (Response 200 (JObj [(''sucess'', JBool True)]),
            [(1, ''order:available'', JObj [])], Some one_socket)
   \<and> emit_route (Some ''key'') (Some one_socket) offer_request
     \<noteq> Inr (Response 200 (JObj [(''success'', JBool True)]),
            [(1, ''order:available'', JObj [])], Some one_socket)"
  by (simp add: emit_route_def truthy_def getIO_def to_emit_def members_def RESERVED_EVENTS_def
      nullish_default_def offer_request_def one_socket_def)

text \<open>
  C8, as the claim states it, fails: an authorised request that names an empty room and
  the event \<open>disconnect\<close> is not answered with success. The emit throws on the reserved
  name and the handler ends with the exception.
\<close>

theorem emit_reserved_event_counterexample:
  "emit_route (Some ''key'') (Some one_socket)
     (offer_request\<lparr>event := Some ''disconnect'', room := Some ''user:u9''\<rparr>)
     = Inl (Reserved_event_name ''disconnect'')"
  by (simp add: emit_route_def truthy_def getIO_def to_emit_def RESERVED_EVENTS_def
      offer_request_def)

text \<open>
  C8, amended. Publishing to a room with no connected socket is a successful no-op
  whenever the event is not one of the socket library's reserved names: for an
  authorised request with an event and a room, when the event name is not reserved and
  no socket is enrolled in the room, the route answers with status 200, hands no message
  to any socket and leaves the server as it was.
\<close>

theorem emit_empty_room_noop:
  assumes "x_internal_key req = KEY"
    and "truthy (event req) = Some ev"
    and "truthy (room req) = Some r"
    and "ev \<notin> set RESERVED_EVENTS"
    and "members s r = []"
  shows "emit_route KEY (Some s) req
           = Inr (Response 200 (JObj [(''sucess'', JBool True)]), [], Some s)"
  using assms by (simp add: emit_route_def getIO_def to_emit_def)

theorem emit_empty_room_noop_witness:
  "emit_route (Some ''key'') (Some one_socket) (offer_request\<lparr>room := Some ''user:u9''\<rparr>)
     = Inr (Response 200 (JObj [(''sucess'', JBool True)]), [], Some one_socket)"
proof -
  let ?req = "offer_request\<lparr>room := Some ''user:u9''\<rparr>"
  have key: "x_internal_key ?req = Some ''key''"
    by (simp add: offer_request_def)
  have ev: "truthy (event ?req) = Some ''order:available''"
    by (simp add: offer_request_def truthy_def)
  have rm: "truthy (room ?req) = Some ''user:u9''"
    by (simp add: truthy_def)
  have free: "''order:available'' \<notin> set RESERVED_EVENTS"
    by (simp add: RESERVED_EVENTS_def)
  have empty: "members one_socket ''user:u9'' = []"
    by (simp add: members_def one_socket_def)
  show ?thesis
    using emit_empty_room_noop [OF key ev rm free empty] .
qed

section \<open>The order-ready consumer\<close>

lemma notify_map:
  "notify axios_post KEY d riders
     = map (\<lambda>r. Post (offer KEY d r) (axios_post (offer KEY d r))) riders"
  by (induction riders) simp_all

lemma Nack_notin_notify: "Nack b \<notin> set (notify axios_post KEY d riders)"
  by (induction riders) simp_all

lemma Find_notin_notify: "Find g \<notin> set (notify axios_post KEY d riders)"
  by (induction riders) simp_all

lemma on_message_processed:
  assumes "event_type ev = Some ''ORDER_READY_FOR_RIDER''"
    and "event_data ev = Some d"
    and "Rider_find distance collection (data_location d) = Some riders"
  shows "on_message distance axios_post KEY collection (Some (Parsed ev))
           = Find (data_location d) # notify axios_post KEY d riders @ [Ack]"
  using assms by (simp add: on_message_def)

lemma set_Rider_find:
  "Rider_find distance (Some docs) (Some l) = Some riders \<Longrightarrow>
     set riders = {r \<in> set docs. eligible distance l r}"
  by (auto simp: Rider_find_def)

lemma ready_event_type: "event_type (ready_event tag) = Some tag"
  by (simp add: ready_event_def)

lemma ready_event_data: "event_data (ready_event tag) = Some ready_data"
  by (simp add: ready_event_def)

lemma ready_data_location: "data_location ready_data = Some (0, 0)"
  by (simp add: ready_data_def)

lemma Rider_find_near_far:
  "Rider_find flat_distance (Some [near_rider, far_rider]) (Some (0, 0)) = Some [near_rider]"
  by (simp add: Rider_find_def eligible_def near_rider_def far_rider_def flat_distance_def)

text \<open>
  C3, as the claim states it, fails: with the right tag and no eligible rider (the only
  rider is 900 m away) the consumer runs the query and acknowledges the message at once.
\<close>

theorem empty_candidates_counterexample:
  "on_message flat_distance (always True) (Some ''key'') (Some [far_rider])
     (Some (Parsed (ready_event ''ORDER_READY_FOR_RIDER'')))
   = [Find (Some (0, 0)), Ack]"
  by (simp add: on_message_def ready_event_def ready_data_def Rider_find_def eligible_def
      far_rider_def flat_distance_def)

text \<open>
  C3, amended. When the query of an order-ready message returns no rider, the consumer
  acknowledges the message immediately and posts no offer: the query and the
  acknowledgement are all it does. Nothing is requeued and nothing is dead-lettered.
\<close>

theorem empty_candidates_acknowledged:
  assumes "event_type ev = Some ''ORDER_READY_FOR_RIDER''"
    and "event_data ev = Some d"
    and "Rider_find distance collection (data_location d) = Some []"
  shows "on_message distance axios_post KEY collection (Some (Parsed ev))
           = [Find (data_location d), Ack]"
  using assms by (simp add: on_message_def)

theorem empty_candidates_acknowledged_witness:
  "on_message flat_distance (always True) (Some ''key'') (Some [])
     (Some (Parsed (ready_event ''ORDER_READY_FOR_RIDER'')))
   = [Find (Some (0, 0)), Ack]"
proof -
  have found: "Rider_find flat_distance (Some []) (data_location ready_data) = Some []"
    by (simp add: Rider_find_def ready_data_def)
  show ?thesis
    using empty_candidates_acknowledged [OF ready_event_type ready_event_data found,
        of "always True" "Some ''key''"]
    by (simp add: ready_data_location)
qed

text \<open>
  C4, as the claim states it, fails: one eligible rider, and the request to the realtime
  service fails; the consumer acknowledges the message all the same.
\<close>

theorem failed_dispatch_counterexample:
  "on_message flat_distance (always False) (Some ''key'') (Some [near_rider])
     (Some (Parsed (ready_event ''ORDER_READY_FOR_RIDER'')))
   = [Find (Some (0, 0)), Post (offer (Some ''key'') ready_data near_rider) False, Ack]"
  by (simp add: on_message_def ready_event_def ready_data_def Rider_find_def eligible_def
      near_rider_def flat_distance_def always_def)

text \<open>
  C4, amended. The consumer acknowledges a processed message after it has attempted the
  offer to every rider the query returned, one request per rider in the order of the
  result, and it does so whether the requests succeed or fail. It never rejects a
  message: no run of the callback calls \<open>nack\<close>.
\<close>

theorem ack_follows_every_dispatch_attempt:
  "(event_type ev = Some ''ORDER_READY_FOR_RIDER'' \<longrightarrow> event_data ev = Some d \<longrightarrow>
      Rider_find distance collection (data_location d) = Some riders \<longrightarrow>
      on_message distance axios_post KEY collection (Some (Parsed ev))
        = Find (data_location d)
          # map (\<lambda>r. Post (offer KEY d r) (axios_post (offer KEY d r))) riders @ [Ack])
   \<and> (\<forall>requeue. Nack requeue \<notin> set (on_message distance axios_post KEY collection msg))"
proof (intro conjI impI allI)
  assume "event_type ev = Some ''ORDER_READY_FOR_RIDER''" "event_data ev = Some d"
    "Rider_find distance collection (data_location d) = Some riders"
  then show "on_message distance axios_post KEY collection (Some (Parsed ev))
        = Find (data_location d)
          # map (\<lambda>r. Post (offer KEY d r) (axios_post (offer KEY d r))) riders @ [Ack]"
    using on_message_processed notify_map by simp
next
  fix requeue
  show "Nack requeue \<notin> set (on_message distance axios_post KEY collection msg)"
    by (simp add: on_message_def Nack_notin_notify split: option.splits content.splits)
qed

theorem ack_follows_every_dispatch_attempt_witness:
  "on_message flat_distance (always False) (Some ''key'') (Some [near_rider, far_rider])
     (Some (Parsed (ready_event ''ORDER_READY_FOR_RIDER'')))
   = [Find (Some (0, 0)), Post (offer (Some ''key'') ready_data near_rider) False, Ack]"
proof -
  have found: "Rider_find flat_distance (Some [near_rider, far_rider]) (data_location ready_data)
                 = Some [near_rider]"
    by (simp add: ready_data_location Rider_find_near_far)
  show ?thesis
    using ack_follows_every_dispatch_attempt
      [where ev = "ready_event ''ORDER_READY_FOR_RIDER''" and d = ready_data
         and distance = flat_distance and collection = "Some [near_rider, far_rider]"
         and riders = "[near_rider]" and axios_post = "always False" and KEY = "Some ''key''"]
      found
    by (simp add: ready_event_type ready_event_data ready_data_location always_def)
qed

text \<open>
  C5, as the claim states it, fails: a message tagged \<open>ORDER_READY_FOR_PICKUP\<close> is
  skipped, although an eligible rider is on record: no query, no offer, only the
  acknowledgement.
\<close>

theorem pickup_tag_counterexample:
  "on_message flat_distance (always True) (Some ''key'') (Some [near_rider])
     (Some (Parsed (ready_event ''ORDER_READY_FOR_PICKUP''))) = [Ack]"
  by (simp add: on_message_def ready_event_def)

text \<open>
  C5, amended. The tag the consumer looks for is \<open>ORDER_READY_FOR_RIDER\<close>, with data
  \<open>{orderId, restaurantId, location}\<close>: for every message that parses, the consumer runs
  the rider query exactly when the type is \<open>ORDER_READY_FOR_RIDER\<close> and the data is
  present; a message with any other type is acknowledged and skipped.
\<close>

theorem consumer_processes_order_ready_for_rider:
  "((\<exists>g. Find g \<in> set (on_message distance axios_post KEY collection (Some (Parsed ev))))
      \<longleftrightarrow> (event_type ev = Some ''ORDER_READY_FOR_RIDER'' \<and> event_data ev \<noteq> None))
   \<and> (event_type ev \<noteq> Some ''ORDER_READY_FOR_RIDER'' \<longrightarrow>
        on_message distance axios_post KEY collection (Some (Parsed ev)) = [Ack])"
proof (cases "event_type ev = Some ''ORDER_READY_FOR_RIDER''")
  case False
  then have "on_message distance axios_post KEY collection (Some (Parsed ev)) = [Ack]"
    by (simp add: on_message_def)
  with False show ?thesis by simp
next
  case tag: True
  show ?thesis
  proof (cases "event_data ev")
    case None
    with tag have "on_message distance axios_post KEY collection (Some (Parsed ev)) = []"
      by (simp add: on_message_def)
    with tag None show ?thesis by simp
  next
    case (Some d)
    have "Find (data_location d)
            \<in> set (on_message distance axios_post KEY collection (Some (Parsed ev)))"
    proof (cases "Rider_find distance collection (data_location d)")
      case None
      with tag Some show ?thesis by (simp add: on_message_def)
    next
      case (Some riders)
      with tag \<open>event_data ev = Some d\<close> show ?thesis
        by (simp add: on_message_processed)
    qed
    with tag Some show ?thesis by auto
  qed
qed

theorem consumer_processes_order_ready_for_rider_witness:
  "(\<exists>g. Find g \<in> set (on_message flat_distance (always True) (Some ''key'') (Some [near_rider])
             (Some (Parsed (ready_event ''ORDER_READY_FOR_RIDER'')))))
   \<and> on_message flat_distance (always True) (Some ''key'') (Some [near_rider])
        (Some (Parsed (ready_event ''PAYMENT_SUCCESS''))) = [Ack]"
proof -
  have "event_type (ready_event ''PAYMENT_SUCCESS'') \<noteq> Some ''ORDER_READY_FOR_RIDER''"
    by (simp add: ready_event_def)
  then show ?thesis
    using consumer_processes_order_ready_for_rider
      [of flat_distance "always True" "Some ''key''" "Some [near_rider]"
          "ready_event ''ORDER_READY_FOR_RIDER''"]
      consumer_processes_order_ready_for_rider
      [of flat_distance "always True" "Some ''key''" "Some [near_rider]"
          "ready_event ''PAYMENT_SUCCESS''"]
    by (simp add: ready_event_type ready_event_data)
qed

text \<open>
  C6. The offers go to exactly the eligible riders: when an order-ready message with
  pickup location \<open>l\<close> is processed, a request for event \<open>order:available\<close> to room
  \<open>user:u\<close> is posted if and only if some rider document with user id \<open>u\<close> is
  available, verified and at most 500 m from \<open>l\<close>.
\<close>

theorem offers_go_to_exactly_the_eligible:
  assumes "event_type ev = Some ''ORDER_READY_FOR_RIDER''"
    and "event_data ev = Some d"
    and "data_location d = Some l"
  shows "(\<exists>req ok. Post req ok
              \<in> set (on_message distance axios_post KEY (Some docs) (Some (Parsed ev)))
            \<and> event req = Some ''order:available'' \<and> room req = Some (''user:'' @ u))
          \<longleftrightarrow> (\<exists>r \<in> set docs. userId r = u \<and> isAvailble r = True \<and> isVerified r = True
                \<and> distance l (location r) \<le> 500)"
proof -
  obtain riders where rf: "Rider_find distance (Some docs) (data_location d) = Some riders"
    using assms(3) by (simp add: Rider_find_def)
  have eff: "on_message distance axios_post KEY (Some docs) (Some (Parsed ev))
           = Find (data_location d) # notify axios_post KEY d riders @ [Ack]"
    using on_message_processed[OF assms(1,2) rf] .
  have sr: "set riders = {r \<in> set docs. eligible distance l r}"
    using set_Rider_find rf assms(3) by simp
  show ?thesis
  proof
    assume "\<exists>req ok. Post req ok
              \<in> set (on_message distance axios_post KEY (Some docs) (Some (Parsed ev)))
            \<and> event req = Some ''order:available'' \<and> room req = Some (''user:'' @ u)"
    then obtain req r where "r \<in> set riders" "req = offer KEY d r"
      "room req = Some (''user:'' @ u)"
      unfolding eff notify_map by auto
    then show "\<exists>r \<in> set docs. userId r = u \<and> isAvailble r = True \<and> isVerified r = True
                \<and> distance l (location r) \<le> 500"
      using sr by (auto simp: offer_def eligible_def)
  next
    assume "\<exists>r \<in> set docs. userId r = u \<and> isAvailble r = True \<and> isVerified r = True
                \<and> distance l (location r) \<le> 500"
    then obtain r where r: "r \<in> set riders" "userId r = u"
      using sr by (auto simp: eligible_def)
    have "Post (offer KEY d r) (axios_post (offer KEY d r))
            \<in> set (on_message distance axios_post KEY (Some docs) (Some (Parsed ev)))"
      unfolding eff notify_map using r(1) by simp
    moreover have "event (offer KEY d r) = Some ''order:available''"
      and "room (offer KEY d r) = Some (''user:'' @ u)"
      using r(2) by (simp_all add: offer_def)
    ultimately show "\<exists>req ok. Post req ok
              \<in> set (on_message distance axios_post KEY (Some docs) (Some (Parsed ev)))
            \<and> event req = Some ''order:available'' \<and> room req = Some (''user:'' @ u)"
      by blast
  qed
qed

theorem offers_go_to_exactly_the_eligible_witness:
  "(\<exists>req ok. Post req ok
        \<in> set (on_message flat_distance (always True) (Some ''key'')
                 (Some [near_rider, far_rider])
                 (Some (Parsed (ready_event ''ORDER_READY_FOR_RIDER''))))
      \<and> event req = Some ''order:available'' \<and> room req = Some (''user:'' @ ''u1''))
   \<and> \<not> (\<exists>req ok. Post req ok
        \<in> set (on_message flat_distance (always True) (Some ''key'')
                 (Some [near_rider, far_rider])
                 (Some (Parsed (ready_event ''ORDER_READY_FOR_RIDER''))))
      \<and> event req = Some ''order:available'' \<and> room req = Some (''user:'' @ ''u2''))"
proof -
  note inst = offers_go_to_exactly_the_eligible
    [OF ready_event_type ready_event_data ready_data_location,
      of flat_distance "always True" "Some ''key''" "[near_rider, far_rider]"]
  have near: "\<exists>r \<in> set [near_rider, far_rider]. userId r = ''u1'' \<and> isAvailble r = True
      \<and> isVerified r = True \<and> flat_distance (0, 0) (location r) \<le> 500"
    by (simp add: near_rider_def flat_distance_def)
  have far: "\<not> (\<exists>r \<in> set [near_rider, far_rider]. userId r = ''u2'' \<and> isAvailble r = True
      \<and> isVerified r = True \<and> flat_distance (0, 0) (location r) \<le> 500)"
    by (simp add: near_rider_def far_rider_def flat_distance_def)
  show ?thesis
    using inst [of "''u1''"] inst [of "''u2''"] near far by blast
qed

section \<open>Payment verification and the settlement event\<close>

text \<open>
  C9, as the claim states it, fails: the envelope the producer publishes has no
  \<open>timestamp\<close> member, and its data are \<open>orderId\<close>, \<open>paymentId\<close> and \<open>provider\<close>,
  with no payment reference under that name.
\<close>

theorem payment_envelope_counterexample:
  "get_member (payment_success_envelope razorpay_payload) ''timestamp'' = None
   \<and> get_member (payment_success_envelope razorpay_payload) ''data''
     = Some (JObj [(''orderId'', JStr ''o1''), (''paymentId'', JStr ''pay_1''),
                   (''provider'', JStr ''razorpay'')])"
  by (simp add: get_member_def payment_success_envelope_def member_of_def provider_name_def
      razorpay_payload_def)

text \<open>
  C9, amended. The envelope published on payment settlement is
  \<open>{type: "PAYMENT_SUCCESS", data: {orderId, paymentId, provider}}\<close>, sent as a
  persistent message to the payment queue; it has the two members \<open>type\<close> and \<open>data\<close>
  and no \<open>timestamp\<close>.
\<close>

theorem payment_success_envelope_shape:
  "publishPaymentSuccess Q ch
     \<lparr> payload_orderId = Some oid, payload_paymentId = Some pid, payload_provider = prov \<rparr>
     = ch @ [\<lparr> sent_queue = Q,
               sent_content =
                 JObj [(''type'', JStr ''PAYMENT_SUCCESS''),
                       (''data'', JObj [(''orderId'', JStr oid), (''paymentId'', JStr pid),
                                        (''provider'', JStr (provider_name prov))])],
               sent_persistent = True \<rparr>]
   \<and> get_member (payment_success_envelope p) ''type'' = Some (JStr ''PAYMENT_SUCCESS'')
   \<and> get_member (payment_success_envelope p) ''timestamp'' = None"
  by (simp add: publishPaymentSuccess_def payment_success_envelope_def member_of_def
      get_member_def)

text \<open>
  C10. The Razorpay verification endpoint publishes if and only if the signature of the
  request is the hex digest of \<open><razorpay_order_id>|<razorpay_payment_id>\<close> under the
  Razorpay secret. On a mismatch it answers 400 \<open>Payment verification failed\<close> and the
  channel is untouched; on a match it answers 200 and appends exactly one
  \<open>PAYMENT_SUCCESS\<close> message for the order and payment of the request.
\<close>

theorem razorpay_publishes_iff_signature_valid:
  "(snd (verifyRazorpayPayment hmac SECRET Q ch req) \<noteq> ch
      \<longleftrightarrow> razorpay_signature req
            = Some (hmac SECRET (template (razorpay_order_id req) @ ''|''
                                 @ template (razorpay_payment_id req))))
   \<and> (razorpay_signature req
        \<noteq> Some (hmac SECRET (template (razorpay_order_id req) @ ''|''
                             @ template (razorpay_payment_id req)))
      \<longrightarrow> verifyRazorpayPayment hmac SECRET Q ch req
            = (Response 400 (JObj [(''message'', JStr ''Payment verification failed'')]), ch))
   \<and> (razorpay_signature req
        = Some (hmac SECRET (template (razorpay_order_id req) @ ''|''
                             @ template (razorpay_payment_id req)))
      \<longrightarrow> verifyRazorpayPayment hmac SECRET Q ch req
            = (Response 200 (JObj [(''message'', JStr ''Payment verified successfully'')]),
               ch @ [\<lparr> sent_queue = Q,
                         sent_content = payment_success_envelope
                           \<lparr> payload_orderId = orderId req,
                             payload_paymentId = razorpay_payment_id req,
                             payload_provider = razorpay \<rparr>,
                         sent_persistent = True \<rparr>]))"
proof -
  let ?expected = "hmac SECRET (template (razorpay_order_id req) @ ''|''
                                 @ template (razorpay_payment_id req))"
  show ?thesis
  proof (cases "razorpay_signature req = Some ?expected")
    case True
    then show ?thesis
      by (simp add: verifyRazorpayPayment_def verifyRazorpaySignature_def
          publishPaymentSuccess_def Let_def)
  next
    case False
    then have "\<not> verifyRazorpaySignature hmac SECRET (razorpay_order_id req)
                   (razorpay_payment_id req) (razorpay_signature req)"
      by (auto simp: verifyRazorpaySignature_def Let_def)
    with False show ?thesis
      by (simp add: verifyRazorpayPayment_def Let_def)
  qed
qed

theorem razorpay_publishes_iff_signature_valid_witness:
  "verifyRazorpayPayment toy_hmac ''secret'' ''payment_queue'' [] signed_request
     = (Response 200 (JObj [(''message'', JStr ''Payment verified successfully'')]),
        [\<lparr> sent_queue = ''payment_queue'',
            sent_content = payment_success_envelope razorpay_payload,
            sent_persistent = True \<rparr>])
   \<and> verifyRazorpayPayment toy_hmac ''secret'' ''payment_queue'' []
        (signed_request\<lparr>razorpay_signature := Some ''forged''\<rparr>)
     = (Response 400 (JObj [(''message'', JStr ''Payment verification failed'')]), [])"
proof -
  have good: "razorpay_signature signed_request
      = Some (toy_hmac ''secret'' (template (razorpay_order_id signed_request) @ ''|''
                @ template (razorpay_payment_id signed_request)))"
    by (simp add: signed_request_def toy_hmac_def template_def)
  have bad: "razorpay_signature (signed_request\<lparr>razorpay_signature := Some ''forged''\<rparr>)
      \<noteq> Some (toy_hmac ''secret''
                (template (razorpay_order_id (signed_request\<lparr>razorpay_signature := Some ''forged''\<rparr>))
                 @ ''|''
                 @ template (razorpay_payment_id (signed_request\<lparr>razorpay_signature := Some ''forged''\<rparr>))))"
    by (simp add: signed_request_def toy_hmac_def template_def)
  have payload: "\<lparr> payload_orderId = orderId signed_request,
                   payload_paymentId = razorpay_payment_id signed_request,
                   payload_provider = razorpay \<rparr> = razorpay_payload"
    by (simp add: signed_request_def razorpay_payload_def)
  show ?thesis
    using razorpay_publishes_iff_signature_valid
      [of toy_hmac "''secret''" "''payment_queue''" "[]" signed_request]
      razorpay_publishes_iff_signature_valid
      [of toy_hmac "''secret''" "''payment_queue''" "[]"
          "signed_request\<lparr>razorpay_signature := Some ''forged''\<rparr>"]
      good bad payload
    by simp
qed

section \<open>Settlement of an order\<close>

lemma transition_paid_payment:
  "paymentStatus (transition_paid doc) = paymentStatus doc"
  "expiresAt (transition_paid doc) = expiresAt doc"
  by (simp_all add: transition_paid_def)

lemma settle_pending:
  assumes "db (settled_orderId d) = Some doc" and "paymentStatus doc = pending"
  shows "settlement_consumer True db d
           = (Acknowledge,
              [\<lparr> notification_room = ''user:'' @ order_userId doc,
                  notification_orderId = settled_orderId d \<rparr>],
              db(settled_orderId d \<mapsto>
                   transition_paid (doc\<lparr>paymentStatus := paid, expiresAt := None\<rparr>)))"
  using assms by (simp add: settlement_consumer_def)

text \<open>A delivery that cannot reach the store, finds no order or finds the payment no
  longer pending publishes nothing and leaves the store as it is.\<close>

lemma settle_noop:
  assumes "\<not> up \<or> db (settled_orderId d) = None
           \<or> (\<exists>doc. db (settled_orderId d) = Some doc \<and> paymentStatus doc \<noteq> pending)"
  shows "fst (snd (settlement_consumer up db d)) = []"
    and "snd (snd (settlement_consumer up db d)) = db"
  using assms by (auto simp: settlement_consumer_def)

lemma redeliver_noop:
  assumes "db (settled_orderId d) = None
           \<or> (\<exists>doc. db (settled_orderId d) = Some doc \<and> paymentStatus doc \<noteq> pending)"
  shows "redeliver ups db d = ([], db)"
proof (induction ups)
  case Nil
  show ?case by simp
next
  case (Cons up ups)
  obtain dec sent db' where step: "settlement_consumer up db d = (dec, sent, db')"
    by (cases "settlement_consumer up db d")
  have "sent = []" and "db' = db"
    using settle_noop [of up db d] assms step by simp_all
  with step Cons.IH show ?case by simp
qed

lemma redeliver_down: "redeliver (False # ups) db d = redeliver ups db d"
  by (simp add: settlement_consumer_def split: prod.splits)

lemma redeliver_pending:
  assumes "db (settled_orderId d) = Some doc" and "paymentStatus doc = pending"
    and "True \<in> set ups"
  shows "redeliver ups db d
           = ([\<lparr> notification_room = ''user:'' @ order_userId doc,
                  notification_orderId = settled_orderId d \<rparr>],
              db(settled_orderId d \<mapsto>
                   transition_paid (doc\<lparr>paymentStatus := paid, expiresAt := None\<rparr>)))"
  using assms(3)
proof (induction ups)
  case Nil
  then show ?case by simp
next
  case (Cons up ups)
  show ?case
  proof (cases up)
    case True
    let ?db = "db(settled_orderId d \<mapsto>
                   transition_paid (doc\<lparr>paymentStatus := paid, expiresAt := None\<rparr>))"
    have "\<exists>doc'. ?db (settled_orderId d) = Some doc' \<and> paymentStatus doc' \<noteq> pending"
      by (simp add: transition_paid_payment)
    then have rest: "redeliver ups ?db d = ([], ?db)"
      using redeliver_noop [of ?db d ups] by blast
    have step: "settlement_consumer True db d
           = (Acknowledge,
              [\<lparr> notification_room = ''user:'' @ order_userId doc,
                  notification_orderId = settled_orderId d \<rparr>], ?db)"
      using settle_pending [where db = db and d = d and doc = doc] assms(1,2) by blast
    have "redeliver (True # ups) db d
           = ([\<lparr> notification_room = ''user:'' @ order_userId doc,
                  notification_orderId = settled_orderId d \<rparr>], ?db)"
      by (simp only: redeliver.simps step rest prod.case append_Nil2)
    with True show ?thesis
      by (simp only:)
  next
    case False
    with Cons.prems have "True \<in> set ups" by auto
    with Cons.IH False show ?thesis
      by (simp only: redeliver_down)
  qed
qed

text \<open>
  C2. Settlement is idempotent. Take an order whose payment is pending and deliver the
  same \<open>PAYMENT_SUCCESS\<close> envelope \<open>n \<ge> 1\<close> times with the store in reach. The outcome
  is that of a single delivery: the order has payment status \<open>paid\<close> and no expiry, and
  exactly one notification has been published, to the room of the order's user, not
  \<open>n\<close>. The deliveries after the first find the condition failed and change nothing.
\<close>

theorem settlement_replay_idempotent:
  assumes "db (settled_orderId d) = Some doc" and "paymentStatus doc = pending"
    and "0 < n"
  shows "redeliver (replicate n True) db d = redeliver [True] db d
    \<and> fst (redeliver (replicate n True) db d)
        = [\<lparr> notification_room = ''user:'' @ order_userId doc,
              notification_orderId = settled_orderId d \<rparr>]
    \<and> (\<exists>doc'. snd (redeliver (replicate n True) db d) (settled_orderId d) = Some doc'
          \<and> paymentStatus doc' = paid \<and> expiresAt doc' = None)
    \<and> (\<forall>oid. oid \<noteq> settled_orderId d
          \<longrightarrow> snd (redeliver (replicate n True) db d) oid = db oid)"
proof -
  have many: "True \<in> set (replicate n True)"
    using assms(3) by simp
  have once: "True \<in> set [True]"
    by simp
  have n_times: "redeliver (replicate n True) db d
           = ([\<lparr> notification_room = ''user:'' @ order_userId doc,
                  notification_orderId = settled_orderId d \<rparr>],
              db(settled_orderId d \<mapsto>
                   transition_paid (doc\<lparr>paymentStatus := paid, expiresAt := None\<rparr>)))"
    using redeliver_pending [where db = db and d = d and doc = doc and ups = "replicate n True"]
      assms(1,2) many by blast
  have one_time: "redeliver [True] db d
           = ([\<lparr> notification_room = ''user:'' @ order_userId doc,
                  notification_orderId = settled_orderId d \<rparr>],
              db(settled_orderId d \<mapsto>
                   transition_paid (doc\<lparr>paymentStatus := paid, expiresAt := None\<rparr>)))"
    using redeliver_pending [where db = db and d = d and doc = doc and ups = "[True]"]
      assms(1,2) once by blast
  show ?thesis
    unfolding n_times one_time by (simp add: transition_paid_payment)
qed

theorem settlement_replay_idempotent_witness:
  "redeliver [True, True, True] [''o1'' \<mapsto> pending_order] settlement
     = redeliver [True] [''o1'' \<mapsto> pending_order] settlement
   \<and> fst (redeliver [True, True, True] [''o1'' \<mapsto> pending_order] settlement)
     = [\<lparr> notification_room = ''user:u7'', notification_orderId = ''o1'' \<rparr>]"
proof -
  have stored: "[''o1'' \<mapsto> pending_order] (settled_orderId settlement) = Some pending_order"
    by (simp add: settlement_def)
  have open_payment: "paymentStatus pending_order = pending"
    by (simp add: pending_order_def)
  have pos: "(0::nat) < 3"
    by simp
  have three: "replicate 3 True = [True, True, True]"
    by (simp add: numeral_3_eq_3)
  have user: "order_userId pending_order = ''u7''"
    by (simp add: pending_order_def)
  have oid: "settled_orderId settlement = ''o1''"
    by (simp add: settlement_def)
  have inst: "redeliver (replicate 3 True) [''o1'' \<mapsto> pending_order] settlement
          = redeliver [True] [''o1'' \<mapsto> pending_order] settlement
        \<and> fst (redeliver (replicate 3 True) [''o1'' \<mapsto> pending_order] settlement)
          = [\<lparr> notification_room = ''user:'' @ order_userId pending_order,
                notification_orderId = settled_orderId settlement \<rparr>]"
    using settlement_replay_idempotent
      [where db = "[''o1'' \<mapsto> pending_order]" and d = settlement and doc = pending_order
         and n = 3] stored open_payment pos
    by blast
  show ?thesis
    using inst [unfolded three user oid append.simps] .
qed

section \<open>Rider assignment\<close>

lemma assign_first:
  assumes "db oid = Some doc" and "riderId doc = None"
    and "assign_key a = KEY" and "assign_orderId a = oid"
  shows "assignRiderToOrder toJSON KEY db a
           = (Response 200 (JObj [(''success'', JBool True), (''order'', toJSON (assignment a doc))]),
              db(oid \<mapsto> assignment a doc))"
  using assms by (simp add: assignRiderToOrder_def findOneAndUpdate_def)

lemma assign_taken_store:
  assumes "db oid = Some doc" and "riderId doc \<noteq> None"
  shows "snd (assignRiderToOrder toJSON KEY db req) oid = Some doc"
  using assms
  by (auto simp: assignRiderToOrder_def findOneAndUpdate_def split: option.splits)

lemma assign_taken_response:
  assumes "db oid = Some doc" and "riderId doc \<noteq> None"
    and "assign_key req = KEY" and "assign_orderId req = oid"
  shows "assignRiderToOrder toJSON KEY db req
           = (Response 400 (JObj [(''message'', JStr ''Order already taken'')]), db)"
  using assms by (auto simp: assignRiderToOrder_def findOneAndUpdate_def)

lemma assign_rider_same_store:
  "assign_key req = KEY \<Longrightarrow>
     snd (assign_rider toJSON db req) = snd (assignRiderToOrder toJSON KEY db req)"
  by (simp add: assign_rider_def assignRiderToOrder_def split: prod.splits option.splits)

text \<open>
  Once an order has a rider, no request changes it, whatever its key, its target or its
  rider, and every authorised request for it is answered with the conflict.
\<close>

lemma serve_assign_taken:
  assumes "db oid = Some doc" and "riderId doc \<noteq> None"
    and "serve_assign toJSON KEY db reqs = (resps, db')"
  shows "db' oid = Some doc \<and> length resps = length reqs
         \<and> (\<forall>i < length reqs. assign_key (reqs ! i) = KEY \<and> assign_orderId (reqs ! i) = oid
               \<longrightarrow> resps ! i = Response 400 (JObj [(''message'', JStr ''Order already taken'')]))"
  using assms
proof (induction reqs arbitrary: db resps db')
  case Nil
  then show ?case by simp
next
  case (Cons req reqs)
  obtain resp db1 where step: "assignRiderToOrder toJSON KEY db req = (resp, db1)"
    by (cases "assignRiderToOrder toJSON KEY db req")
  obtain rs db2 where rest: "serve_assign toJSON KEY db1 reqs = (rs, db2)"
    by (cases "serve_assign toJSON KEY db1 reqs")
  from Cons.prems(3) step rest have eq: "resps = resp # rs" "db' = db2"
    by simp_all
  have db1: "db1 oid = Some doc"
    using assign_taken_store [where db = db and oid = oid and doc = doc and toJSON = toJSON
        and KEY = KEY and req = req] Cons.prems(1,2) step by simp
  have ih: "db2 oid = Some doc \<and> length rs = length reqs
         \<and> (\<forall>i < length reqs. assign_key (reqs ! i) = KEY \<and> assign_orderId (reqs ! i) = oid
               \<longrightarrow> rs ! i = Response 400 (JObj [(''message'', JStr ''Order already taken'')]))"
    using Cons.IH [of db1 rs db2] db1 Cons.prems(2) rest by blast
  have first: "assign_key req = KEY \<and> assign_orderId req = oid \<longrightarrow>
      resp = Response 400 (JObj [(''message'', JStr ''Order already taken'')])"
    using assign_taken_response [where db = db and oid = oid and doc = doc and toJSON = toJSON
        and KEY = KEY and req = req] Cons.prems(1,2) step by auto
  show ?case
  proof (intro conjI allI impI)
    show "db' oid = Some doc" using ih eq by simp
    show "length resps = length (req # reqs)" using ih eq by simp
  next
    fix i
    assume "i < length (req # reqs)"
      and "assign_key ((req # reqs) ! i) = KEY \<and> assign_orderId ((req # reqs) ! i) = oid"
    then show "resps ! i = Response 400 (JObj [(''message'', JStr ''Order already taken'')])"
      using ih first eq by (cases i) auto
  qed
qed

text \<open>
  C1. Accepting an order is a compare-and-swap that cannot assign twice. Take an order
  without a rider and any sequence of requests that starts with an authorised accept of
  a courier \<open>c\<close> for this order. The first request succeeds: it is answered 200 with the
  updated order. Every later authorised request for this order is answered 400
  \<open>Order already taken\<close>. At the end the order is exactly what the first request made
  of it, rider \<open>c\<close> and status \<open>rider_assigned\<close>, whatever the later requests were.
\<close>

theorem first_accept_wins:
  assumes "db oid = Some doc" and "riderId doc = None"
    and "assign_key a = KEY" and "assign_orderId a = oid" and "assign_riderId a = Some c"
    and "serve_assign toJSON KEY db (a # rest) = (resps, db')"
  shows "length resps = Suc (length rest)
    \<and> resps ! 0 = Response 200 (JObj [(''success'', JBool True),
                                       (''order'', toJSON (assignment a doc))])
    \<and> (\<forall>i < length rest. assign_key (rest ! i) = KEY \<and> assign_orderId (rest ! i) = oid
          \<longrightarrow> resps ! Suc i = Response 400 (JObj [(''message'', JStr ''Order already taken'')]))
    \<and> db' oid = Some (assignment a doc)
    \<and> riderId (assignment a doc) = Some c
    \<and> status (assignment a doc) = ''rider_assigned''"
proof -
  have step: "assignRiderToOrder toJSON KEY db a
           = (Response 200 (JObj [(''success'', JBool True), (''order'', toJSON (assignment a doc))]),
              db(oid \<mapsto> assignment a doc))"
    using assign_first [where db = db and oid = oid and doc = doc and a = a and KEY = KEY
        and toJSON = toJSON] assms(1-4) by simp
  obtain rs db2 where rest: "serve_assign toJSON KEY (db(oid \<mapsto> assignment a doc)) rest = (rs, db2)"
    by (cases "serve_assign toJSON KEY (db(oid \<mapsto> assignment a doc)) rest")
  from assms(6) step rest have eq:
    "resps = Response 200 (JObj [(''success'', JBool True), (''order'', toJSON (assignment a doc))]) # rs"
    "db' = db2"
    by simp_all
  have taken: "riderId (assignment a doc) \<noteq> None" "riderId (assignment a doc) = Some c"
    "status (assignment a doc) = ''rider_assigned''"
    using assms(5) by (simp_all add: assignment_def)
  have stored: "(db(oid \<mapsto> assignment a doc)) oid = Some (assignment a doc)" by simp
  have after: "db2 oid = Some (assignment a doc) \<and> length rs = length rest
         \<and> (\<forall>i < length rest. assign_key (rest ! i) = KEY \<and> assign_orderId (rest ! i) = oid
               \<longrightarrow> rs ! i = Response 400 (JObj [(''message'', JStr ''Order already taken'')]))"
    using serve_assign_taken [where db = "db(oid \<mapsto> assignment a doc)" and oid = oid
      and doc = "assignment a doc" and toJSON = toJSON and KEY = KEY and reqs = rest
      and resps = rs and db' = db2] stored taken(1) rest by blast
  show ?thesis
    using after eq taken by simp
qed

theorem first_accept_wins_witness:
  "fst (serve_assign id_only (Some ''key'') [''o1'' \<mapsto> ready_order]
          [accept_by ''A'', accept_by ''B'', accept_by ''C''])
     = [Response 200 (JObj [(''success'', JBool True), (''order'', JStr ''A'')]),
        Response 400 (JObj [(''message'', JStr ''Order already taken'')]),
        Response 400 (JObj [(''message'', JStr ''Order already taken'')])]
   \<and> snd (serve_assign id_only (Some ''key'') [''o1'' \<mapsto> ready_order]
          [accept_by ''A'', accept_by ''B'', accept_by ''C'']) ''o1''
     = Some (ready_order\<lparr> riderId := Some ''A'', riderName := Some ''A'', riderPhone := None,
                           status := ''rider_assigned'' \<rparr>)"
proof -
  obtain resps db' where run:
    "serve_assign id_only (Some ''key'') [''o1'' \<mapsto> ready_order]
       [accept_by ''A'', accept_by ''B'', accept_by ''C''] = (resps, db')"
    by (cases "serve_assign id_only (Some ''key'') [''o1'' \<mapsto> ready_order]
       [accept_by ''A'', accept_by ''B'', accept_by ''C'']")
  have stored: "[''o1'' \<mapsto> ready_order] ''o1'' = Some ready_order"
    by simp
  have free: "riderId ready_order = None"
    by (simp add: ready_order_def)
  have key: "assign_key (accept_by ''A'') = Some ''key''"
    and target: "assign_orderId (accept_by ''A'') = ''o1''"
    and courier: "assign_riderId (accept_by ''A'') = Some ''A''"
    by (simp_all add: accept_by_def)
  have made: "assignment (accept_by ''A'') ready_order
      = ready_order\<lparr> riderId := Some ''A'', riderName := Some ''A'', riderPhone := None,
                      status := ''rider_assigned'' \<rparr>"
    by (simp add: assignment_def accept_by_def)
  have fact: "length resps = Suc (length [accept_by ''B'', accept_by ''C''])
    \<and> resps ! 0 = Response 200 (JObj [(''success'', JBool True),
          (''order'', id_only (assignment (accept_by ''A'') ready_order))])
    \<and> (\<forall>i < length [accept_by ''B'', accept_by ''C''].
          assign_key ([accept_by ''B'', accept_by ''C''] ! i) = Some ''key''
          \<and> assign_orderId ([accept_by ''B'', accept_by ''C''] ! i) = ''o1''
          \<longrightarrow> resps ! Suc i = Response 400 (JObj [(''message'', JStr ''Order already taken'')]))
    \<and> db' ''o1'' = Some (assignment (accept_by ''A'') ready_order)
    \<and> riderId (assignment (accept_by ''A'') ready_order) = Some ''A''
    \<and> status (assignment (accept_by ''A'') ready_order) = ''rider_assigned''"
    using first_accept_wins [where db = "[''o1'' \<mapsto> ready_order]" and oid = "''o1''"
        and doc = ready_order and a = "accept_by ''A''" and KEY = "Some ''key''" and c = "''A''"
        and toJSON = id_only and rest = "[accept_by ''B'', accept_by ''C'']"
        and resps = resps and db' = db'] stored free key target courier run
    by blast
  then have len: "length resps = 3"
    and r0: "resps ! 0 = Response 200 (JObj [(''success'', JBool True), (''order'', JStr ''A'')])"
    and later: "\<forall>i < 2. resps ! Suc i
                  = Response 400 (JObj [(''message'', JStr ''Order already taken'')])"
    and final: "db' ''o1'' = Some (assignment (accept_by ''A'') ready_order)"
    by (simp_all add: made id_only_def accept_by_def nth_Cons split: nat.splits)
  from len obtain x y z where shape: "resps = [x, y, z]"
    by (auto simp: numeral_3_eq_3 length_Suc_conv)
  from later have "resps ! Suc 0 = Response 400 (JObj [(''message'', JStr ''Order already taken'')])"
    and "resps ! Suc (Suc 0) = Response 400 (JObj [(''message'', JStr ''Order already taken'')])"
    by (simp_all add: numeral_2_eq_2)
  with r0 shape have "resps = [Response 200 (JObj [(''success'', JBool True), (''order'', JStr ''A'')]),
        Response 400 (JObj [(''message'', JStr ''Order already taken'')]),
        Response 400 (JObj [(''message'', JStr ''Order already taken'')])]"
    by simp
  with final made run show ?thesis
    by simp
qed

end
